theory Spec2Isabelle
  imports Complex_Main "HOL-Library.Sublist"
begin

section \<open>Numbers\<close>

text \<open>
  The amounts, rates and fees of \<^verbatim>\<open>_03_rate_calculator.py\<close> are Python floats. They are
  modelled as exact rationals: comparison of finite floats is comparison of the numbers
  they denote, and arithmetic is taken without representation error. Python's
  \<^verbatim>\<open>round(x, n)\<close> rounds to \<open>n\<close> decimals, a tie going to the even neighbour.
\<close>

definition round_half_even :: "rat \<Rightarrow> int" where
  "round_half_even x =
     (let f = \<lfloor>x\<rfloor>; d = x - of_int f
      in if d < 1 / 2 then f
         else if 1 / 2 < d then f + 1
         else if even f then f else f + 1)"

definition py_round :: "rat \<Rightarrow> nat \<Rightarrow> rat" where
  "py_round x n = of_int (round_half_even (x * 10 ^ n)) / 10 ^ n"

text \<open>
  A tier's \<^verbatim>\<open>max_amount\<close> may be \<^verbatim>\<open>float('inf')\<close> (the open last bracket), so a bound
  is a rational or infinity; \<open>le_bound a b\<close> is the test \<^verbatim>\<open>amount <= tier["max_amount"]\<close>.
\<close>

datatype bound = Finite rat | Infinity

fun le_bound :: "rat \<Rightarrow> bound \<Rightarrow> bool" where
  "le_bound a (Finite b) = (a \<le> b)"
| "le_bound a Infinity = True"

section \<open>Configuration\<close>

text \<open>
  The module \<^verbatim>\<open>_01_config\<close> supplies three dictionaries, \<^verbatim>\<open>PAYMENT_CHANNELS\<close>,
  \<^verbatim>\<open>TIERED_RATES\<close> and \<^verbatim>\<open>EXCHANGE_RATES\<close>; every function below takes them as the
  parameter \<open>env\<close>. A channel's configuration is itself a dictionary: a field is \<open>None\<close>
  when the key is absent, which matters because the code reads some keys with
  \<^verbatim>\<open>.get(key, default)\<close> and others with \<^verbatim>\<open>[key]\<close>, which raises \<^verbatim>\<open>KeyError\<close>.
  \<^verbatim>\<open>PAYMENT_CHANNELS\<close> is an association list in insertion order (the order of
  \<^verbatim>\<open>PAYMENT_CHANNELS.keys()\<close>); \<^verbatim>\<open>.get\<close> on it is \<open>map_of\<close>.
\<close>

record channel_config =
  name :: "string option"
  base_rate :: "rat option"
  fixed_fee :: "rat option"
  min_fee :: "rat option"
  max_fee :: "rat option"
  supported_currencies :: "string list option"
  is_active :: "bool option"

record tier =
  max_amount :: bound
  tier_rate :: rat

record config_env =
  PAYMENT_CHANNELS :: "(string \<times> channel_config) list"
  TIERED_RATES :: "string \<rightharpoonup> tier list"
  EXCHANGE_RATES :: "string \<rightharpoonup> rat"

datatype exn = KeyError string | IndexError

text \<open>\<^verbatim>\<open>d.get(key, default)\<close> on an optional field.\<close>

definition get_or :: "'a option \<Rightarrow> 'a \<Rightarrow> 'a" where
  "get_or v d = (case v of None \<Rightarrow> d | Some x \<Rightarrow> x)"

text \<open>\<^verbatim>\<open>d[key]\<close> on an optional field.\<close>

definition index_key :: "string \<Rightarrow> 'a option \<Rightarrow> exn + 'a" where
  "index_key k v = (case v of None \<Rightarrow> Inl (KeyError k) | Some x \<Rightarrow> Inr x)"

section \<open>Tiered rate\<close>

text \<open>
  The loop \<^verbatim>\<open>for tier in tiers: if amount <= tier["max_amount"]: return tier["rate"]\<close>;
  \<open>None\<close> when the loop ends without returning.
\<close>

fun tier_loop :: "rat \<Rightarrow> tier list \<Rightarrow> rat option" where
  "tier_loop amount [] = None"
| "tier_loop amount (t # ts) =
     (if le_bound amount (max_amount t) then Some (tier_rate t) else tier_loop amount ts)"

definition calculate_tiered_rate :: "config_env \<Rightarrow> rat \<Rightarrow> string \<Rightarrow> exn + rat" where
  "calculate_tiered_rate env amount channel_id =
     (case TIERED_RATES env channel_id of
        None \<Rightarrow>
          (case map_of (PAYMENT_CHANNELS env) channel_id of
             None \<Rightarrow> Inr 0.02
           | Some c \<Rightarrow> Inr (get_or (base_rate c) 0.02))
      | Some tiers \<Rightarrow>
          (case tier_loop amount tiers of
             Some r \<Rightarrow> Inr r
           | None \<Rightarrow> if tiers = [] then Inl IndexError else Inr (tier_rate (last tiers))))"

section \<open>Channel fee\<close>

text \<open>
  The two failure messages of \<^verbatim>\<open>calculate_channel_fee\<close> and the one of
  \<^verbatim>\<open>calculate_exchange_cost\<close> are formatted strings carrying the offending identifier; the
  fee note is one of three fixed strings (empty, minimum applied, maximum applied).
\<close>

datatype message =
  Unknown_channel string
| Inactive_channel string
| Unsupported_currency string

datatype fee_note = No_note | Min_fee_applied | Max_fee_applied

record fee_info =
  fr_channel_id :: string
  fr_channel_name :: string
  fr_amount :: rat
  fr_rate :: rat
  fr_fixed_fee :: rat
  fr_calculated_fee :: rat
  fr_final_fee :: rat
  fr_fee_note :: fee_note

text \<open>
  The returned dictionary: \<open>Fee_Failure m\<close> is \<^verbatim>\<open>{"success": False, "error": m}\<close>,
  \<open>Fee_Ok r\<close> is the dictionary with \<^verbatim>\<open>"success": True\<close> and the fields of \<open>r\<close>.
\<close>

datatype fee_result = Fee_Failure message | Fee_Ok fee_info

fun fee_success :: "fee_result \<Rightarrow> bool" where
  "fee_success (Fee_Failure m) = False"
| "fee_success (Fee_Ok r) = True"

definition clamp_fee :: "rat \<Rightarrow> rat \<Rightarrow> rat \<Rightarrow> rat \<times> fee_note" where
  "clamp_fee min_f max_f calculated =
     (if 0 < min_f \<and> calculated < min_f then (min_f, Min_fee_applied)
      else if 0 < max_f \<and> max_f < calculated then (max_f, Max_fee_applied)
      else (calculated, No_note))"

definition calculate_channel_fee ::
  "config_env \<Rightarrow> rat \<Rightarrow> string \<Rightarrow> bool \<Rightarrow> exn + fee_result" where
  "calculate_channel_fee env amount channel_id use_tiered_rate =
     (case map_of (PAYMENT_CHANNELS env) channel_id of
        None \<Rightarrow> Inr (Fee_Failure (Unknown_channel channel_id))
      | Some c \<Rightarrow>
          if \<not> get_or (is_active c) True
          then Inr (Fee_Failure (Inactive_channel channel_id))
          else
            (case (if use_tiered_rate \<and> TIERED_RATES env channel_id \<noteq> None
                   then calculate_tiered_rate env amount channel_id
                   else index_key ''base_rate'' (base_rate c)) of
               Inl e \<Rightarrow> Inl e
             | Inr rate \<Rightarrow>
                 (let fixed = get_or (fixed_fee c) 0;
                      calculated_fee = amount * rate + fixed;
                      (final_fee, note) =
                        clamp_fee (get_or (min_fee c) 0) (get_or (max_fee c) 0) calculated_fee
                  in case index_key ''name'' (name c) of
                       Inl e \<Rightarrow> Inl e
                     | Inr nm \<Rightarrow>
                         Inr (Fee_Ok \<lparr>fr_channel_id = channel_id,
                                      fr_channel_name = nm,
                                      fr_amount = amount,
                                      fr_rate = rate,
                                      fr_fixed_fee = fixed,
                                      fr_calculated_fee = py_round calculated_fee 2,
                                      fr_final_fee = py_round final_fee 2,
                                      fr_fee_note = note\<rparr>))))"

section \<open>Exchange cost\<close>

record exchange_info =
  ex_from_currency :: string
  ex_to_currency :: string
  ex_original_amount :: rat
  ex_market_rate :: rat
  ex_actual_rate :: rat
  ex_spread_rate :: rat
  ex_market_amount :: rat
  ex_actual_amount :: rat
  ex_exchange_loss :: rat
  ex_loss_percentage :: rat

datatype exchange_result = Exchange_Failure message | Exchange_Ok exchange_info

fun exchange_success :: "exchange_result \<Rightarrow> bool" where
  "exchange_success (Exchange_Failure m) = False"
| "exchange_success (Exchange_Ok r) = True"

text \<open>
  \<^verbatim>\<open>calculate_exchange_cost\<close> reads \<^verbatim>\<open>EXCHANGE_RATES[from_currency]\<close> only after the
  membership test, and does nothing else that can raise: it always returns a dictionary.
\<close>

definition calculate_exchange_cost ::
  "config_env \<Rightarrow> rat \<Rightarrow> string \<Rightarrow> string \<Rightarrow> rat \<Rightarrow> exchange_result" where
  "calculate_exchange_cost env amount from_currency to_currency spread_rate =
     (case EXCHANGE_RATES env from_currency of
        None \<Rightarrow> Exchange_Failure (Unsupported_currency from_currency)
      | Some market_rate \<Rightarrow>
          (let actual_rate = market_rate * (1 - spread_rate);
               market_amount = amount * market_rate;
               actual_amount = amount * actual_rate;
               exchange_loss = market_amount - actual_amount
           in Exchange_Ok \<lparr>ex_from_currency = from_currency,
                           ex_to_currency = to_currency,
                           ex_original_amount = amount,
                           ex_market_rate = market_rate,
                           ex_actual_rate = py_round actual_rate 4,
                           ex_spread_rate = spread_rate,
                           ex_market_amount = py_round market_amount 2,
                           ex_actual_amount = py_round actual_amount 2,
                           ex_exchange_loss = py_round exchange_loss 2,
                           ex_loss_percentage = py_round (spread_rate * 100) 2\<rparr>))"


section \<open>Total cost\<close>

record cost_info =
  tc_amount :: rat
  tc_currency :: string
  tc_channel_id :: string
  tc_fee :: rat
  tc_fee_rate :: rat
  tc_exchange_loss :: rat
  tc_amount_cny :: rat
  tc_total_cost :: rat
  tc_total_cost_rate :: rat

text \<open>
  \<^verbatim>\<open>calculate_total_cost\<close> returns one of three dictionaries: the failure dictionary of
  \<^verbatim>\<open>calculate_channel_fee\<close> unchanged (\<open>Cost_Fee_Failure\<close>); its own partly filled
  dictionary with \<^verbatim>\<open>"success": False\<close> and the exchange error, which by then holds the fee
  and the fee rate (\<open>Cost_Exchange_Failure fee fee_rate m\<close>, the echoed arguments left
  out); or the full dictionary with \<^verbatim>\<open>"success": True\<close>.
\<close>

datatype cost_result =
  Cost_Fee_Failure message
| Cost_Exchange_Failure rat rat message
| Cost_Ok cost_info

fun cost_success :: "cost_result \<Rightarrow> bool" where
  "cost_success (Cost_Ok r) = True"
| "cost_success _ = False"

definition finish_cost ::
  "rat \<Rightarrow> string \<Rightarrow> string \<Rightarrow> rat \<Rightarrow> rat \<Rightarrow> rat \<Rightarrow> rat \<Rightarrow> rat \<Rightarrow> cost_info" where
  "finish_cost amount currency channel_id fee fee_rate exchange_loss amount_cny total_cost =
     \<lparr>tc_amount = amount,
      tc_currency = currency,
      tc_channel_id = channel_id,
      tc_fee = fee,
      tc_fee_rate = fee_rate,
      tc_exchange_loss = exchange_loss,
      tc_amount_cny = amount_cny,
      tc_total_cost = py_round total_cost 2,
      tc_total_cost_rate =
        (if 0 < amount_cny then py_round (total_cost / amount_cny) 4 else 0)\<rparr>"

definition calculate_total_cost ::
  "config_env \<Rightarrow> rat \<Rightarrow> string \<Rightarrow> string \<Rightarrow> rat \<Rightarrow> exn + cost_result" where
  "calculate_total_cost env amount currency channel_id spread_rate =
     (case calculate_channel_fee env amount channel_id True of
        Inl e \<Rightarrow> Inl e
      | Inr (Fee_Failure m) \<Rightarrow> Inr (Cost_Fee_Failure m)
      | Inr (Fee_Ok fee_result) \<Rightarrow>
          (let fee = fr_final_fee fee_result; fee_rate = fr_rate fee_result
           in if currency \<noteq> ''CNY''
              then
                (case calculate_exchange_cost env amount currency ''CNY'' spread_rate of
                   Exchange_Failure m \<Rightarrow> Inr (Cost_Exchange_Failure fee fee_rate m)
                 | Exchange_Ok x \<Rightarrow>
                     Inr (Cost_Ok (finish_cost amount currency channel_id fee fee_rate
                            (ex_exchange_loss x) (ex_actual_amount x)
                            (fee * ex_actual_rate x + ex_exchange_loss x))))
              else
                Inr (Cost_Ok (finish_cost amount currency channel_id fee fee_rate
                       0 amount fee))))"

section \<open>Comparing channels\<close>

text \<open>
  An entry of the comparison. The key \<^verbatim>\<open>"rank"\<close> is absent (\<open>None\<close>) until the last loop
  of \<^verbatim>\<open>compare_channel_fees\<close> stores it.
\<close>

record comparison_entry =
  ce_channel_id :: string
  ce_channel_name :: string
  ce_fee :: rat
  ce_exchange_loss :: rat
  ce_total_cost :: rat
  ce_total_cost_rate :: rat
  ce_rank :: "nat option"

text \<open>\<^verbatim>\<open>PAYMENT_CHANNELS.get(channel_id, {}).get("supported_currencies", [])\<close>.\<close>

definition supported_of :: "config_env \<Rightarrow> string \<Rightarrow> string list" where
  "supported_of env channel_id =
     (case map_of (PAYMENT_CHANNELS env) channel_id of
        None \<Rightarrow> []
      | Some c \<Rightarrow> get_or (supported_currencies c) [])"

text \<open>\<^verbatim>\<open>channel_config["name"]\<close> on the same dictionary (empty for an unknown channel).\<close>

definition name_of :: "config_env \<Rightarrow> string \<Rightarrow> exn + string" where
  "name_of env channel_id =
     (case map_of (PAYMENT_CHANNELS env) channel_id of
        None \<Rightarrow> Inl (KeyError ''name'')
      | Some c \<Rightarrow> index_key ''name'' (name c))"

text \<open>
  The first loop of \<^verbatim>\<open>compare_channel_fees\<close>: the entries appended to \<^verbatim>\<open>results\<close>, in
  the order of \<^verbatim>\<open>channel_ids\<close>. An exception raised for one channel ends the loop.
\<close>

fun collect_results :: "config_env \<Rightarrow> rat \<Rightarrow> string \<Rightarrow> string list \<Rightarrow> exn + comparison_entry list" where
  "collect_results env amount currency [] = Inr []"
| "collect_results env amount currency (channel_id # rest) =
     (if currency \<notin> set (supported_of env channel_id)
      then collect_results env amount currency rest
      else
        (case calculate_total_cost env amount currency channel_id 0.005 of
           Inl e \<Rightarrow> Inl e
         | Inr (Cost_Ok r) \<Rightarrow>
             (case name_of env channel_id of
                Inl e \<Rightarrow> Inl e
              | Inr nm \<Rightarrow>
                  (case collect_results env amount currency rest of
                     Inl e \<Rightarrow> Inl e
                   | Inr es \<Rightarrow>
                       Inr (\<lparr>ce_channel_id = channel_id,
                             ce_channel_name = nm,
                             ce_fee = tc_fee r,
                             ce_exchange_loss = tc_exchange_loss r,
                             ce_total_cost = tc_total_cost r,
                             ce_total_cost_rate = tc_total_cost_rate r,
                             ce_rank = None\<rparr> # es)))
         | Inr _ \<Rightarrow> collect_results env amount currency rest))"

text \<open>
  \<^verbatim>\<open>for i, result in enumerate(results): result["rank"] = i + 1\<close>.
\<close>

definition add_ranks :: "comparison_entry list \<Rightarrow> comparison_entry list" where
  "add_ranks rs = map (\<lambda>(i, r). r\<lparr>ce_rank := Some (i + 1)\<rparr>) (enumerate 0 rs)"

text \<open>
  \<^verbatim>\<open>channel_ids\<close> is \<open>None\<close> when the argument is left at its default. Python's
  \<^verbatim>\<open>sorted\<close> is a stable sort by the key, as \<open>sort_key\<close> is.
\<close>

definition compare_channel_fees ::
  "config_env \<Rightarrow> rat \<Rightarrow> string \<Rightarrow> string list option \<Rightarrow> exn + comparison_entry list" where
  "compare_channel_fees env amount currency channel_ids =
     (let ids = (case channel_ids of
                   None \<Rightarrow> map fst (PAYMENT_CHANNELS env)
                 | Some l \<Rightarrow> l)
      in case collect_results env amount currency ids of
           Inl e \<Rightarrow> Inl e
         | Inr results \<Rightarrow> Inr (add_ranks (sort_key ce_total_cost results)))"

text \<open>\<^verbatim>\<open>comparison[0] if comparison else None\<close>.\<close>

definition find_cheapest_channel ::
  "config_env \<Rightarrow> rat \<Rightarrow> string \<Rightarrow> exn + comparison_entry option" where
  "find_cheapest_channel env amount currency =
     (case compare_channel_fees env amount currency None of
        Inl e \<Rightarrow> Inl e
      | Inr comparison \<Rightarrow>
          Inr (case comparison of [] \<Rightarrow> None | r # _ \<Rightarrow> Some r))"

section \<open>Reading results\<close>


text \<open>The \<^verbatim>\<open>actual_rate\<close> of a returned exchange dictionary, if it has one.\<close>

fun actual_rate_of :: "exchange_result \<Rightarrow> rat option" where
  "actual_rate_of (Exchange_Ok r) = Some (ex_actual_rate r)"
| "actual_rate_of (Exchange_Failure m) = None"

text \<open>The same result with another value under the key \<^verbatim>\<open>to_currency\<close>, where it has one.\<close>

fun with_to_currency :: "string \<Rightarrow> exchange_result \<Rightarrow> exchange_result" where
  "with_to_currency t (Exchange_Failure m) = Exchange_Failure m"
| "with_to_currency t (Exchange_Ok r) = Exchange_Ok (r\<lparr>ex_to_currency := t\<rparr>)"

text \<open>An entry without its rank, as it was appended to \<^verbatim>\<open>results\<close>.\<close>

definition without_rank :: "comparison_entry \<Rightarrow> comparison_entry" where
  "without_rank e = e\<lparr>ce_rank := None\<rparr>"

section \<open>Example configurations\<close>

text \<open>
  Concrete inputs for evaluation. The SWIFT figures are those of the demonstration in
  \<^verbatim>\<open>_05_models.py\<close>, the tiers of \<^verbatim>\<open>bank_transfer\<close> those of the specification's scenario;
  \<^verbatim>\<open>legacy_wire\<close> is a disabled channel.
\<close>

definition bank_transfer_config :: channel_config where
  "bank_transfer_config =
     \<lparr>name = Some ''Bank transfer'', base_rate = Some 0.015, fixed_fee = None,
      min_fee = None, max_fee = None,
      supported_currencies = Some [''USD'', ''EUR'', ''CNY''], is_active = Some True\<rparr>"

definition swift_config :: channel_config where
  "swift_config =
     \<lparr>name = Some ''SWIFT'', base_rate = Some 0.015, fixed_fee = Some 30,
      min_fee = Some 80, max_fee = Some 800,
      supported_currencies = Some [''USD'', ''EUR''], is_active = None\<rparr>"

definition legacy_wire_config :: channel_config where
  "legacy_wire_config =
     \<lparr>name = Some ''Legacy wire'', base_rate = Some 0.03, fixed_fee = None,
      min_fee = None, max_fee = None,
      supported_currencies = Some [''USD''], is_active = Some False\<rparr>"

definition alipay_config :: channel_config where
  "alipay_config =
     \<lparr>name = Some ''Alipay'', base_rate = Some 0.02, fixed_fee = None,
      min_fee = None, max_fee = None,
      supported_currencies = Some [''USD'', ''CNY''], is_active = Some True\<rparr>"

definition bank_transfer_tiers :: "tier list" where
  "bank_transfer_tiers =
     [\<lparr>max_amount = Finite 10000, tier_rate = 0.015\<rparr>,
      \<lparr>max_amount = Finite 50000, tier_rate = 0.012\<rparr>,
      \<lparr>max_amount = Finite 100000, tier_rate = 0.010\<rparr>,
      \<lparr>max_amount = Infinity, tier_rate = 0.008\<rparr>]"

definition capped_tiers :: "tier list" where
  "capped_tiers =
     [\<lparr>max_amount = Finite 10000, tier_rate = 0.015\<rparr>,
      \<lparr>max_amount = Finite 50000, tier_rate = 0.012\<rparr>]"

definition example_env :: config_env where
  "example_env =
     \<lparr>PAYMENT_CHANNELS =
        [(''bank_transfer'', bank_transfer_config),
         (''swift'', swift_config),
         (''legacy_wire'', legacy_wire_config),
         (''alipay'', alipay_config)],
      TIERED_RATES =
        [''bank_transfer'' \<mapsto> bank_transfer_tiers, ''alipay'' \<mapsto> capped_tiers],
      EXCHANGE_RATES = [''USD'' \<mapsto> 7.25, ''EUR'' \<mapsto> 7.85, ''CNY'' \<mapsto> 1]\<rparr>"




section \<open>Rounding\<close>







section \<open>Tier selection\<close>

lemma tier_loop_first:
  "i < length tiers \<Longrightarrow> le_bound amount (max_amount (tiers ! i)) \<Longrightarrow>
   \<forall>j<i. \<not> le_bound amount (max_amount (tiers ! j)) \<Longrightarrow>
   tier_loop amount tiers = Some (tier_rate (tiers ! i))"
proof (induction tiers arbitrary: i)
  case Nil
  then show ?case by simp
next
  case (Cons t ts)
  show ?case
  proof (cases i)
    case 0
    with Cons.prems show ?thesis by simp
  next
    case (Suc k)
    with Cons.prems have "\<not> le_bound amount (max_amount t)" by auto
    moreover have "tier_loop amount ts = Some (tier_rate (ts ! k))"
      using Cons.prems Suc by (intro Cons.IH) auto
    ultimately show ?thesis using Suc by simp
  qed
qed

lemma tier_loop_none:
  "\<forall>t\<in>set tiers. \<not> le_bound amount (max_amount t) \<Longrightarrow> tier_loop amount tiers = None"
  by (induction tiers) auto

text \<open>
  C2. Where the channel has a tier list, \<^verbatim>\<open>calculate_tiered_rate\<close> returns the rate of the
  first tier whose bound is at least the amount (the bound is inclusive), and the rate of
  the last tier when the amount is above every bound of a non-empty list. This holds for
  every tier list, ascending or not.
\<close>

theorem calculate_tiered_rate_selects:
  assumes "TIERED_RATES env channel_id = Some tiers"
  shows "(\<forall>i<length tiers.
            le_bound amount (max_amount (tiers ! i)) \<and>
            (\<forall>j<i. \<not> le_bound amount (max_amount (tiers ! j))) \<longrightarrow>
            calculate_tiered_rate env amount channel_id = Inr (tier_rate (tiers ! i))) \<and>
         (tiers \<noteq> [] \<and> (\<forall>t\<in>set tiers. \<not> le_bound amount (max_amount t)) \<longrightarrow>
            calculate_tiered_rate env amount channel_id = Inr (tier_rate (last tiers)))"
  using assms
  by (auto simp: calculate_tiered_rate_def tier_loop_first tier_loop_none)

text \<open>
  The scenario of the specification (amount 10000 on the four tiers of
  \<^verbatim>\<open>bank_transfer\<close> selects 0.015), and an amount above both bounds of a two-tier list.
\<close>

theorem calculate_tiered_rate_selects_witness:
  "calculate_tiered_rate example_env 10000 ''bank_transfer'' = Inr 0.015 \<and>
   calculate_tiered_rate example_env 60000 ''alipay'' = Inr 0.012"
proof -
  have b: "TIERED_RATES example_env ''bank_transfer'' = Some bank_transfer_tiers"
    by (simp add: example_env_def)
  have a: "TIERED_RATES example_env ''alipay'' = Some capped_tiers"
    by (simp add: example_env_def)
  have "calculate_tiered_rate example_env 10000 ''bank_transfer'' =
          Inr (tier_rate (bank_transfer_tiers ! 0))"
    using calculate_tiered_rate_selects [OF b, of 10000, THEN conjunct1, THEN spec, of 0]
    by (simp add: bank_transfer_tiers_def)
  moreover have "calculate_tiered_rate example_env 60000 ''alipay'' =
          Inr (tier_rate (last capped_tiers))"
    using calculate_tiered_rate_selects [OF a, of 60000, THEN conjunct2]
    by (simp add: capped_tiers_def)
  ultimately show ?thesis
    by (simp add: bank_transfer_tiers_def capped_tiers_def)
qed

section \<open>Failure results\<close>

text \<open>
  C7. An unknown channel and a disabled channel make \<^verbatim>\<open>calculate_channel_fee\<close> return a
  failure dictionary (success flag false, with a message), and a currency without a
  reference rate makes \<^verbatim>\<open>calculate_exchange_cost\<close> return one; in none of the three cases is
  an exception raised (the result is a returned value, \<open>Inr\<close> for the fee).
\<close>

theorem failures_are_returned:
  "(map_of (PAYMENT_CHANNELS env) channel_id = None \<longrightarrow>
      calculate_channel_fee env amount channel_id use_tiered_rate =
        Inr (Fee_Failure (Unknown_channel channel_id))) \<and>
   (\<forall>c. map_of (PAYMENT_CHANNELS env) channel_id = Some c \<and> \<not> get_or (is_active c) True \<longrightarrow>
      calculate_channel_fee env amount channel_id use_tiered_rate =
        Inr (Fee_Failure (Inactive_channel channel_id))) \<and>
   (EXCHANGE_RATES env from_currency = None \<longrightarrow>
      calculate_exchange_cost env amount from_currency to_currency spread_rate =
        Exchange_Failure (Unsupported_currency from_currency)) \<and>
   \<not> fee_success (Fee_Failure (Unknown_channel channel_id)) \<and>
   \<not> fee_success (Fee_Failure (Inactive_channel channel_id)) \<and>
   \<not> exchange_success (Exchange_Failure (Unsupported_currency from_currency))"
  by (simp add: calculate_channel_fee_def calculate_exchange_cost_def)

theorem failures_are_returned_witness:
  "calculate_channel_fee example_env 100 ''western_union'' True =
     Inr (Fee_Failure (Unknown_channel ''western_union'')) \<and>
   calculate_channel_fee example_env 100 ''legacy_wire'' True =
     Inr (Fee_Failure (Inactive_channel ''legacy_wire'')) \<and>
   calculate_exchange_cost example_env 100 ''JPY'' ''CNY'' 0.005 =
     Exchange_Failure (Unsupported_currency ''JPY'')"
proof -
  have u: "map_of (PAYMENT_CHANNELS example_env) ''western_union'' = None"
    by (simp add: example_env_def)
  have i: "map_of (PAYMENT_CHANNELS example_env) ''legacy_wire'' = Some legacy_wire_config
           \<and> \<not> get_or (is_active legacy_wire_config) True"
    by (simp add: example_env_def legacy_wire_config_def get_or_def)
  have j: "EXCHANGE_RATES example_env ''JPY'' = None"
    by (simp add: example_env_def)
  show ?thesis
    using failures_are_returned
        [of example_env "''western_union''" 100 True "''JPY''" "''CNY''" "0.005"]
      failures_are_returned
        [of example_env "''legacy_wire''" 100 True "''JPY''" "''CNY''" "0.005"]
      u i j
    by blast
qed

section \<open>Exchange cost\<close>

text \<open>
  C9. Two calls of \<^verbatim>\<open>calculate_exchange_cost\<close> that differ only in \<^verbatim>\<open>to_currency\<close> return
  the same dictionary up to the echoed \<^verbatim>\<open>to_currency\<close> field: the second result is the
  first with that one field replaced.
\<close>

theorem to_currency_only_echoed:
  "calculate_exchange_cost env amount from_currency t2 spread_rate =
     with_to_currency t2 (calculate_exchange_cost env amount from_currency t1 spread_rate)"
  by (simp add: calculate_exchange_cost_def Let_def split: option.splits)



text \<open>
  C8, as stated, at the scenario's input: the returned \<^verbatim>\<open>actual_rate\<close> is not 7.21375,
  because the code returns it rounded to four decimals.
\<close>

theorem exchange_scenario_actual_rate_counterexample:
  "actual_rate_of (calculate_exchange_cost example_env 1000 ''USD'' ''CNY'' 0.005) \<noteq>
     Some 7.21375"
  by code_simp

lemma scenario_roundings:
  "py_round (7.25 * (1 - 0.005)) 4 = 7.2138"
  "py_round (1000 * 7.25) 2 = 7250"
  "py_round (1000 * (7.25 * (1 - 0.005))) 2 = 7213.75"
  "py_round (1000 * 7.25 - 1000 * (7.25 * (1 - 0.005))) 2 = 36.25"
  "py_round (0.005 * 100) 2 = 0.5"
  by code_simp+

text \<open>
  C8, amended. For amount 1000 in USD at market rate 7.25 and spread 0.005,
  \<^verbatim>\<open>calculate_exchange_cost\<close> returns \<^verbatim>\<open>actual_rate\<close> 7.2138 (7.21375 rounded to four
  decimals), \<^verbatim>\<open>market_amount\<close> 7250.00, \<^verbatim>\<open>actual_amount\<close> 7213.75 and
  \<^verbatim>\<open>exchange_loss\<close> 36.25.
\<close>

theorem exchange_scenario:
  assumes "EXCHANGE_RATES env ''USD'' = Some 7.25"
  shows "calculate_exchange_cost env 1000 ''USD'' to_currency 0.005 =
     Exchange_Ok \<lparr>ex_from_currency = ''USD'', ex_to_currency = to_currency,
                  ex_original_amount = 1000, ex_market_rate = 7.25,
                  ex_actual_rate = 7.2138, ex_spread_rate = 0.005,
                  ex_market_amount = 7250, ex_actual_amount = 7213.75,
                  ex_exchange_loss = 36.25, ex_loss_percentage = 0.5\<rparr>"
  unfolding calculate_exchange_cost_def Let_def assms option.case scenario_roundings
  by (rule refl)

theorem exchange_scenario_witness:
  "calculate_exchange_cost example_env 1000 ''USD'' ''CNY'' 0.005 =
     Exchange_Ok \<lparr>ex_from_currency = ''USD'', ex_to_currency = ''CNY'',
                  ex_original_amount = 1000, ex_market_rate = 7.25,
                  ex_actual_rate = 7.2138, ex_spread_rate = 0.005,
                  ex_market_amount = 7250, ex_actual_amount = 7213.75,
                  ex_exchange_loss = 36.25, ex_loss_percentage = 0.5\<rparr>"
proof -
  have h: "EXCHANGE_RATES example_env ''USD'' = Some 7.25"
    by (simp add: example_env_def)
  show ?thesis
    using exchange_scenario [OF h, of "''CNY''"] .
qed

section \<open>Fee limits\<close>









section \<open>Comparison\<close>

lemma collect_results_append:
  "collect_results env amount currency (xs @ ys) =
     (case collect_results env amount currency xs of
        Inl e \<Rightarrow> Inl e
      | Inr a \<Rightarrow>
          (case collect_results env amount currency ys of
             Inl e \<Rightarrow> Inl e
           | Inr b \<Rightarrow> Inr (a @ b)))"
  by (induction xs) (auto split: sum.splits cost_result.splits)

lemma collect_results_unsupported:
  "\<forall>c\<in>set ids. currency \<notin> set (supported_of env c) \<Longrightarrow>
   collect_results env amount currency ids = Inr []"
  by (induction ids) auto

lemma collect_results_no_rank:
  "collect_results env amount currency ids = Inr es \<Longrightarrow> e \<in> set es \<Longrightarrow> ce_rank e = None"
  by (induction ids arbitrary: es)
    (auto split: if_splits sum.splits cost_result.splits)

lemma collect_results_succeeded:
  "collect_results env amount currency ids = Inr es \<Longrightarrow> e \<in> set es \<Longrightarrow>
   ce_channel_id e \<in> set ids \<and>
   (\<exists>r. calculate_total_cost env amount currency (ce_channel_id e) 0.005 = Inr (Cost_Ok r) \<and>
        ce_total_cost e = tc_total_cost r)"
  by (induction ids arbitrary: es)
    (auto split: if_splits sum.splits cost_result.splits)

lemma collect_results_subseq:
  "collect_results env amount currency ids = Inr es \<Longrightarrow> subseq (map ce_channel_id es) ids"
  by (induction ids arbitrary: es)
    (auto split: if_splits sum.splits cost_result.splits)

lemma length_add_ranks: "length (add_ranks rs) = length rs"
  by (simp add: add_ranks_def)

lemma nth_add_ranks:
  "i < length rs \<Longrightarrow> add_ranks rs ! i = (rs ! i)\<lparr>ce_rank := Some (i + 1)\<rparr>"
  by (simp add: add_ranks_def nth_enumerate_eq)

lemma add_ranks_total_cost: "map ce_total_cost (add_ranks rs) = map ce_total_cost rs"
  by (rule nth_equalityI) (simp_all add: length_add_ranks nth_add_ranks)

lemma add_ranks_channel_id: "map ce_channel_id (add_ranks rs) = map ce_channel_id rs"
  by (rule nth_equalityI) (simp_all add: length_add_ranks nth_add_ranks)

lemma add_ranks_without_rank: "map without_rank (add_ranks rs) = map without_rank rs"
  by (rule nth_equalityI) (simp_all add: length_add_ranks nth_add_ranks without_rank_def)

lemma without_rank_id: "\<forall>e\<in>set es. ce_rank e = None \<Longrightarrow> map without_rank es = es"
  by (induction es) (auto simp: without_rank_def)

lemma add_ranks_Nil: "add_ranks [] = []"
  by (simp add: add_ranks_def)

text \<open>
  C5. The list returned by \<^verbatim>\<open>compare_channel_fees\<close> is sorted ascending by
  \<^verbatim>\<open>total_cost\<close>; the \<^verbatim>\<open>rank\<close> of every entry is its index plus one; and the entries of
  equal \<^verbatim>\<open>total_cost\<close> are, rank aside, exactly the entries of that cost in the order in
  which the loop over the channels appended them, so that their channel identifiers follow
  the order of the input channel list.
\<close>

theorem compare_channel_fees_sorted_ranked_stable:
  assumes "compare_channel_fees env amount currency channel_ids = Inr rs"
  shows "sorted (map ce_total_cost rs) \<and>
         (\<forall>i<length rs. ce_rank (rs ! i) = Some (i + 1)) \<and>
         (\<exists>results.
            collect_results env amount currency
              (case channel_ids of None \<Rightarrow> map fst (PAYMENT_CHANNELS env) | Some l \<Rightarrow> l)
              = Inr results \<and>
            (\<forall>k. filter (\<lambda>e. ce_total_cost e = k) (map without_rank rs) =
                 filter (\<lambda>e. ce_total_cost e = k) results)) \<and>
         (\<forall>k. subseq (map ce_channel_id (filter (\<lambda>e. ce_total_cost e = k) rs))
                 (case channel_ids of None \<Rightarrow> map fst (PAYMENT_CHANNELS env) | Some l \<Rightarrow> l))"
proof -
  define ids where
    "ids = (case channel_ids of None \<Rightarrow> map fst (PAYMENT_CHANNELS env) | Some l \<Rightarrow> l)"
  from assms obtain results where
    res: "collect_results env amount currency ids = Inr results" and
    rs: "rs = add_ranks (sort_key ce_total_cost results)"
    by (auto simp: compare_channel_fees_def ids_def Let_def split: sum.splits)
  have srt: "sorted (map ce_total_cost rs)"
    by (simp add: rs add_ranks_total_cost)
  have rnk: "\<forall>i<length rs. ce_rank (rs ! i) = Some (i + 1)"
    by (simp add: rs length_add_ranks nth_add_ranks)
  have norank: "\<forall>e\<in>set results. ce_rank e = None"
    using collect_results_no_rank [OF res] by blast
  have stab: "filter (\<lambda>e. ce_total_cost e = k) (map without_rank rs) =
              filter (\<lambda>e. ce_total_cost e = k) results" for k
  proof -
    have "map without_rank rs = map without_rank (sort_key ce_total_cost results)"
      by (simp add: rs add_ranks_without_rank)
    also have "\<dots> = sort_key ce_total_cost results"
      using norank by (intro without_rank_id) simp
    finally show ?thesis
      by (simp add: sort_key_stable)
  qed
  have sub: "subseq (map ce_channel_id (filter (\<lambda>e. ce_total_cost e = k) rs)) ids" for k
  proof -
    have "map ce_channel_id (filter (\<lambda>e. ce_total_cost e = k) rs) =
          map ce_channel_id (filter (\<lambda>e. ce_total_cost e = k) (map without_rank rs))"
      by (simp add: filter_map comp_def without_rank_def)
    also have "\<dots> = map ce_channel_id (filter (\<lambda>e. ce_total_cost e = k) results)"
      by (simp add: stab)
    finally have "subseq (map ce_channel_id (filter (\<lambda>e. ce_total_cost e = k) rs))
                    (map ce_channel_id results)"
      by (simp add: subseq_map)
    then show ?thesis
      using collect_results_subseq [OF res] subseq_order.order_trans by blast
  qed
  show ?thesis
    using srt rnk res stab sub unfolding ids_def by blast
qed

text \<open>
  On the example configuration \<^verbatim>\<open>bank_transfer\<close> and \<^verbatim>\<open>alipay\<close> cost the same for 1000
  USD, and stay in catalogue order.
\<close>

theorem compare_channel_fees_sorted_ranked_stable_witness:
  "\<exists>rs. compare_channel_fees example_env 1000 ''USD'' None = Inr rs \<and>
        map ce_channel_id rs = [''bank_transfer'', ''alipay'', ''swift''] \<and>
        map ce_total_cost rs = [144.46, 144.46, 613.35] \<and>
        sorted (map ce_total_cost rs) \<and>
        (\<forall>i<length rs. ce_rank (rs ! i) = Some (i + 1)) \<and>
        subseq (map ce_channel_id (filter (\<lambda>e. ce_total_cost e = 144.46) rs))
          [''bank_transfer'', ''swift'', ''legacy_wire'', ''alipay'']"
proof -
  have ev: "compare_channel_fees example_env 1000 ''USD'' None =
    Inr [\<lparr>ce_channel_id = ''bank_transfer'', ce_channel_name = ''Bank transfer'',
           ce_fee = 15, ce_exchange_loss = 36.25, ce_total_cost = 144.46,
           ce_total_cost_rate = 0.02, ce_rank = Some 1\<rparr>,
         \<lparr>ce_channel_id = ''alipay'', ce_channel_name = ''Alipay'',
           ce_fee = 15, ce_exchange_loss = 36.25, ce_total_cost = 144.46,
           ce_total_cost_rate = 0.02, ce_rank = Some 2\<rparr>,
         \<lparr>ce_channel_id = ''swift'', ce_channel_name = ''SWIFT'',
           ce_fee = 80, ce_exchange_loss = 36.25, ce_total_cost = 613.35,
           ce_total_cost_rate = 0.085, ce_rank = Some 3\<rparr>]"
    by code_simp
  have ids: "map fst (PAYMENT_CHANNELS example_env) =
      [''bank_transfer'', ''swift'', ''legacy_wire'', ''alipay'']"
    by (simp add: example_env_def)
  show ?thesis
    using compare_channel_fees_sorted_ranked_stable [OF ev] ev ids
    by (simp del: sorted_wrt.simps)
qed

text \<open>
  C6. \<^verbatim>\<open>compare_channel_fees\<close> returns the empty list for an empty channel list and for a
  channel set (given, or the whole catalogue) none of which supports the currency; and
  \<^verbatim>\<open>find_cheapest_channel\<close> returns \<^verbatim>\<open>None\<close> exactly when the comparison over the
  catalogue is the empty list.
\<close>

theorem compare_channel_fees_empty:
  "compare_channel_fees env amount currency (Some []) = Inr [] \<and>
   ((\<forall>c\<in>set ids. currency \<notin> set (supported_of env c)) \<longrightarrow>
      compare_channel_fees env amount currency (Some ids) = Inr []) \<and>
   ((\<forall>c\<in>set (map fst (PAYMENT_CHANNELS env)). currency \<notin> set (supported_of env c)) \<longrightarrow>
      compare_channel_fees env amount currency None = Inr []) \<and>
   (find_cheapest_channel env amount currency = Inr None \<longleftrightarrow>
      compare_channel_fees env amount currency None = Inr [])"
proof -
  have "find_cheapest_channel env amount currency = Inr None \<longleftrightarrow>
        compare_channel_fees env amount currency None = Inr []"
    by (auto simp: find_cheapest_channel_def split: sum.splits list.splits)
  then show ?thesis
    by (simp add: compare_channel_fees_def collect_results_unsupported add_ranks_Nil)
qed

theorem compare_channel_fees_empty_witness:
  "compare_channel_fees example_env 1000 ''CNY'' (Some [''swift'', ''legacy_wire'']) = Inr [] \<and>
   compare_channel_fees example_env 1000 ''JPY'' None = Inr [] \<and>
   find_cheapest_channel example_env 1000 ''JPY'' = Inr None"
proof -
  have a: "\<forall>c\<in>set [''swift'', ''legacy_wire'']. ''CNY'' \<notin> set (supported_of example_env c)"
    by (simp add: supported_of_def example_env_def swift_config_def legacy_wire_config_def
        get_or_def)
  have b: "\<forall>c\<in>set (map fst (PAYMENT_CHANNELS example_env)).
             ''JPY'' \<notin> set (supported_of example_env c)"
    by (simp add: supported_of_def example_env_def swift_config_def legacy_wire_config_def
        bank_transfer_config_def alipay_config_def get_or_def)
  show ?thesis
    using compare_channel_fees_empty [of example_env 1000 "''CNY''" "[''swift'', ''legacy_wire'']"]
      compare_channel_fees_empty [of example_env 1000 "''JPY''" "[]"] a b
    by blast
qed

text \<open>
  C10. A channel whose total-cost computation reports failure leaves no trace in the
  result of \<^verbatim>\<open>compare_channel_fees\<close>: the call returns what it returns for the channel
  list without that channel (no entry, no error, no exception); and every entry of a
  returned list belongs to a channel whose total-cost computation succeeded.
\<close>

theorem failed_channels_omitted:
  "(\<forall>r. calculate_total_cost env amount currency channel_id 0.005 = Inr r \<and> \<not> cost_success r \<longrightarrow>
      compare_channel_fees env amount currency (Some (pre @ channel_id # post)) =
      compare_channel_fees env amount currency (Some (pre @ post))) \<and>
   (\<forall>rs e. compare_channel_fees env amount currency channel_ids = Inr rs \<and> e \<in> set rs \<longrightarrow>
      (\<exists>r. calculate_total_cost env amount currency (ce_channel_id e) 0.005 = Inr (Cost_Ok r)))"
proof -
  have one: "collect_results env amount currency (channel_id # post) =
             collect_results env amount currency post"
    if "calculate_total_cost env amount currency channel_id 0.005 = Inr r" "\<not> cost_success r"
    for r
    using that by (cases r) auto
  have first: "compare_channel_fees env amount currency (Some (pre @ channel_id # post)) =
               compare_channel_fees env amount currency (Some (pre @ post))"
    if "calculate_total_cost env amount currency channel_id 0.005 = Inr r" "\<not> cost_success r"
    for r
    by (simp only: compare_channel_fees_def option.case Let_def
        collect_results_append [of _ _ _ pre] one [OF that])
  have second: "\<exists>r. calculate_total_cost env amount currency (ce_channel_id e) 0.005 =
                  Inr (Cost_Ok r)"
    if c: "compare_channel_fees env amount currency channel_ids = Inr rs" and e: "e \<in> set rs"
    for rs e
  proof -
    define ids where
      "ids = (case channel_ids of None \<Rightarrow> map fst (PAYMENT_CHANNELS env) | Some l \<Rightarrow> l)"
    from c obtain results where
      res: "collect_results env amount currency ids = Inr results" and
      rs: "rs = add_ranks (sort_key ce_total_cost results)"
      by (auto simp: compare_channel_fees_def ids_def Let_def split: sum.splits)
    have "ce_channel_id e \<in> set (map ce_channel_id rs)"
      using e by simp
    then have "ce_channel_id e \<in> set (map ce_channel_id (sort_key ce_total_cost results))"
      by (simp only: rs add_ranks_channel_id)
    then obtain e' where "e' \<in> set results" "ce_channel_id e' = ce_channel_id e"
      by auto
    then show ?thesis
      using collect_results_succeeded [OF res, of e'] by auto
  qed
  show ?thesis
    using first second by blast
qed

text \<open>
  The disabled channel \<^verbatim>\<open>legacy_wire\<close> supports USD; its total cost is the failure
  dictionary of the fee computation, and the comparison is the one without it.
\<close>

theorem failed_channels_omitted_witness:
  "compare_channel_fees example_env 1000 ''USD'' (Some [''alipay'', ''legacy_wire'', ''swift'']) =
     compare_channel_fees example_env 1000 ''USD'' (Some [''alipay'', ''swift'']) \<and>
   (\<exists>r. calculate_total_cost example_env 1000 ''USD'' ''alipay'' 0.005 = Inr (Cost_Ok r))"
proof -
  have f: "calculate_total_cost example_env 1000 ''USD'' ''legacy_wire'' 0.005 =
             Inr (Cost_Fee_Failure (Inactive_channel ''legacy_wire'')) \<and>
           \<not> cost_success (Cost_Fee_Failure (Inactive_channel ''legacy_wire''))"
    by code_simp
  have ev: "compare_channel_fees example_env 1000 ''USD''
              (Some [''alipay'', ''legacy_wire'', ''swift'']) =
    Inr [\<lparr>ce_channel_id = ''alipay'', ce_channel_name = ''Alipay'',
           ce_fee = 15, ce_exchange_loss = 36.25, ce_total_cost = 144.46,
           ce_total_cost_rate = 0.02, ce_rank = Some 1\<rparr>,
         \<lparr>ce_channel_id = ''swift'', ce_channel_name = ''SWIFT'',
           ce_fee = 80, ce_exchange_loss = 36.25, ce_total_cost = 613.35,
           ce_total_cost_rate = 0.085, ce_rank = Some 2\<rparr>]"
    by code_simp
  note t = failed_channels_omitted
    [of example_env 1000 "''USD''" "''legacy_wire''" "[''alipay'']" "[''swift'']"
        "Some [''alipay'', ''legacy_wire'', ''swift'']"]
  have "compare_channel_fees example_env 1000 ''USD''
          (Some ([''alipay''] @ ''legacy_wire'' # [''swift''])) =
        compare_channel_fees example_env 1000 ''USD'' (Some ([''alipay''] @ [''swift'']))"
    using t f by blast
  moreover have "\<exists>r. calculate_total_cost example_env 1000 ''USD''
      (ce_channel_id \<lparr>ce_channel_id = ''alipay'', ce_channel_name = ''Alipay'',
           ce_fee = 15, ce_exchange_loss = 36.25, ce_total_cost = 144.46,
           ce_total_cost_rate = 0.02, ce_rank = Some 1\<rparr>) 0.005 = Inr (Cost_Ok r)"
    using t ev by (meson list.set_intros(1))
  ultimately show ?thesis
    by simp
qed

end
